theory Spec2Isabelle
  imports Complex_Main
begin

section \<open>JavaScript values\<close>

text \<open>
  The engine is the browser code of the benchmark page (\<^verbatim>\<open>ensureTargetRange\<close>,
  \<^verbatim>\<open>deriveVerdict\<close>, \<^verbatim>\<open>deltaPctFromRange\<close>, \<^verbatim>\<open>statusFromBench\<close>,
  \<^verbatim>\<open>renderDiagnosis\<close>, \<^verbatim>\<open>renderScenarioBuilder\<close>) and of the churn waterfall
  (\<^verbatim>\<open>renderChurnWaterfall\<close>).

  Its numbers arrive as JSON: a field holds a finite number, \<^verbatim>\<open>null\<close>, or is missing
  (\<^verbatim>\<open>undefined\<close>). A finite number is a \<^typ>\<open>real\<close> (every double is one). An object
  that the code dereferences with a plain \<^verbatim>\<open>.\<close> is a record field; an object guarded by
  \<^verbatim>\<open>?.\<close> or \<^verbatim>\<open>!x\<close> is an option.

  Comparisons and \<^verbatim>\<open>Math.max\<close>, \<^verbatim>\<open>Math.min\<close> of doubles are exact, but \<^verbatim>\<open>*\<close>,
  \<^verbatim>\<open>+\<close>, \<^verbatim>\<open>-\<close> and \<^verbatim>\<open>/\<close> round. The diagnosis decides by strict comparisons
  against products and sums, so there the four operations are a parameter \<open>ar\<close> of every
  function: what is proved for every \<open>ar\<close> holds for the rounded operations of the
  browser as well as for the exact ones (\<open>exact\<close>). The scenario builder and the
  waterfall are modelled with the exact operations throughout.
\<close>

datatype jsnum = Undefined | Null | Num real

record arith =
  fmul :: "real \<Rightarrow> real \<Rightarrow> real"
  fadd :: "real \<Rightarrow> real \<Rightarrow> real"
  fsub :: "real \<Rightarrow> real \<Rightarrow> real"
  fdiv :: "real \<Rightarrow> real \<Rightarrow> real"

definition exact :: arith where
  "exact = \<lparr>fmul = (\<lambda>x y. x * y), fadd = (\<lambda>x y. x + y), fsub = (\<lambda>x y. x - y), fdiv = (\<lambda>x y. x / y)\<rparr>"

text \<open>\<^verbatim>\<open>x == null\<close>: true of \<^verbatim>\<open>null\<close> and of \<^verbatim>\<open>undefined\<close>.\<close>

definition nullish :: "jsnum \<Rightarrow> bool" where
  "nullish x = (case x of Num v \<Rightarrow> False | Null \<Rightarrow> True | Undefined \<Rightarrow> True)"

text \<open>\<^verbatim>\<open>x || 0\<close>: every falsy value (\<^verbatim>\<open>null\<close>, \<^verbatim>\<open>undefined\<close>, \<^verbatim>\<open>0\<close>) gives 0.\<close>

definition or_zero :: "jsnum \<Rightarrow> real" where
  "or_zero x = (case x of Num v \<Rightarrow> v | Null \<Rightarrow> 0 | Undefined \<Rightarrow> 0)"

text \<open>
  \<^verbatim>\<open>x > y\<close> and \<^verbatim>\<open>x < y\<close> with a number on the right: \<^verbatim>\<open>null\<close> converts to 0,
  \<^verbatim>\<open>undefined\<close> converts to NaN, and every comparison with NaN is false.
\<close>

definition js_gt :: "jsnum \<Rightarrow> real \<Rightarrow> bool" where
  "js_gt x y = (case x of Num v \<Rightarrow> v > y | Null \<Rightarrow> 0 > y | Undefined \<Rightarrow> False)"

definition js_lt :: "jsnum \<Rightarrow> real \<Rightarrow> bool" where
  "js_lt x y = (case x of Num v \<Rightarrow> v < y | Null \<Rightarrow> 0 < y | Undefined \<Rightarrow> False)"

section \<open>Metric samples, target ranges and verdicts\<close>

text \<open>
  \<open>target_range\<close> is the object as the payload carries it (either bound may be
  missing); \<open>range\<close> is the pair of numbers that \<^verbatim>\<open>ensureTargetRange\<close> returns.
\<close>

record target_range =
  tr_low :: jsnum
  tr_high :: jsnum

record range =
  low :: real
  high :: real

record metric =
  mvalue :: jsnum
  median :: jsnum
  p25 :: jsnum
  p75 :: jsnum
  target_range :: "target_range option"

datatype verdict = unknown | on_target | exceeds_target | outside_target

text \<open>\<^verbatim>\<open>metricData?.f\<close>: \<^verbatim>\<open>undefined\<close> when the sample itself is missing.\<close>

definition opt_field :: "(metric \<Rightarrow> jsnum) \<Rightarrow> metric option \<Rightarrow> jsnum" where
  "opt_field f md = (case md of None \<Rightarrow> Undefined | Some m \<Rightarrow> f m)"

text \<open>A resolved range handed on as a range object with both bounds present.\<close>

definition as_target :: "range \<Rightarrow> target_range option" where
  "as_target r = Some \<lparr>tr_low = Num (low r), tr_high = Num (high r)\<rparr>"

text \<open>
  \<^verbatim>\<open>
  function ensureTargetRange(metricData, unit, metricName) {
    if (metricData?.target_range?.low != null && metricData?.target_range?.high != null) {
      return metricData.target_range;
    }
    const m = metricData?.median ?? metricData?.value ?? (unit === '%' ? 0.05 : (metricName === 'CPC' ? 3 : 50));
    const p25 = metricData?.p25, p75 = metricData?.p75;
    if (p25 != null && p75 != null) return { low: Math.max(0, p25), high: Math.max(p75, p25) };
    const span = Math.max(0.00001, m * 0.15);
    return { low: Math.max(0, m - span), high: m + span };
  }
  \<close>
\<close>

definition supplied_range :: "metric option \<Rightarrow> (real \<times> real) option" where
  "supplied_range md =
     (case md of
        None \<Rightarrow> None
      | Some m \<Rightarrow>
          (case target_range m of
             None \<Rightarrow> None
           | Some tr \<Rightarrow>
               (case (tr_low tr, tr_high tr) of
                  (Num l, Num h) \<Rightarrow> Some (l, h)
                | _ \<Rightarrow> None)))"

definition center :: "metric option \<Rightarrow> string \<Rightarrow> string \<Rightarrow> real" where
  "center md unit metricName =
     (case opt_field median md of
        Num v \<Rightarrow> v
      | _ \<Rightarrow>
          (case opt_field mvalue md of
             Num v \<Rightarrow> v
           | _ \<Rightarrow> (if unit = ''%'' then 0.05 else (if metricName = ''CPC'' then 3 else 50))))"

definition ensureTargetRange :: "arith \<Rightarrow> metric option \<Rightarrow> string \<Rightarrow> string \<Rightarrow> range" where
  "ensureTargetRange ar md unit metricName =
     (case supplied_range md of
        Some (l, h) \<Rightarrow> \<lparr>low = l, high = h\<rparr>
      | None \<Rightarrow>
          (let m = center md unit metricName in
           (case (opt_field p25 md, opt_field p75 md) of
              (Num q25, Num q75) \<Rightarrow> \<lparr>low = max 0 q25, high = max q75 q25\<rparr>
            | _ \<Rightarrow>
                (let span = max 0.00001 (fmul ar m 0.15)
                 in \<lparr>low = max 0 (fsub ar m span), high = fadd ar m span\<rparr>))))"

text \<open>
  \<^verbatim>\<open>
  function deriveVerdict(value, targetRange, direction) {
    if (value == null || targetRange?.low == null || targetRange?.high == null) return 'unknown';
    const { low, high } = targetRange;
    if (value >= low && value <= high) return 'on_target';
    if (direction === 'lower-is-better') {
      return (value < low) ? 'exceeds_target' : 'outside_target';
    } else {
      return (value > high) ? 'exceeds_target' : 'outside_target';
    }
  }
  \<close>
\<close>

definition deriveVerdict :: "jsnum \<Rightarrow> target_range option \<Rightarrow> string \<Rightarrow> verdict" where
  "deriveVerdict v targetRange direction =
     (case (v, targetRange) of
        (Num x, Some tr) \<Rightarrow>
          (case (tr_low tr, tr_high tr) of
             (Num l, Num h) \<Rightarrow>
               (if x \<ge> l \<and> x \<le> h then on_target
                else if direction = ''lower-is-better''
                     then (if x < l then exceeds_target else outside_target)
                     else (if x > h then exceeds_target else outside_target))
           | _ \<Rightarrow> unknown)
      | _ \<Rightarrow> unknown)"

text \<open>
  \<^verbatim>\<open>
  function deltaPctFromRange(value, targetRange) {
    const { low, high } = targetRange;
    if (value < low) return ((low - value) / Math.max(low, 1e-9)) * 100;
    if (value > high) return ((value - high) / Math.max(high, 1e-9)) * 100;
    return 0;
  }
  \<close>
\<close>

definition deltaPctFromRange :: "arith \<Rightarrow> real \<Rightarrow> range \<Rightarrow> real" where
  "deltaPctFromRange ar x r =
     (if x < low r then fmul ar (fdiv ar (fsub ar (low r) x) (max (low r) 0.000000001)) 100
      else if x > high r then fmul ar (fdiv ar (fsub ar x (high r)) (max (high r) 0.000000001)) 100
      else 0)"

section \<open>The diagnosis decision tree\<close>

text \<open>
  \<^verbatim>\<open>
  function statusFromBench(metric, metricName, unit, direction) {
    if (!metric || metric.value == null) return 'UNKNOWN';
    const tr = ensureTargetRange(metric, unit, metricName);
    const verdict = deriveVerdict(metric.value, tr, direction);
    if (verdict === 'on_target' || verdict === 'exceeds_target') return 'GOOD';
    const delta = deltaPctFromRange(metric.value, tr);
    return (delta <= 15) ? 'AVG' : 'WEAK';
  }
  \<close>
\<close>

datatype bench_status = UNKNOWN | GOOD | AVG | WEAK

definition statusFromBench :: "arith \<Rightarrow> metric option \<Rightarrow> string \<Rightarrow> string \<Rightarrow> string \<Rightarrow> bench_status" where
  "statusFromBench ar metric metricName unit direction =
     (case opt_field mvalue metric of
        Num x \<Rightarrow>
          (let tr = ensureTargetRange ar metric unit metricName;
               verdict = deriveVerdict (Num x) (as_target tr) direction
           in if verdict = on_target \<or> verdict = exceeds_target then GOOD
              else (let delta = deltaPctFromRange ar x tr
                    in if delta \<le> 15 then AVG else WEAK))
      | _ \<Rightarrow> UNKNOWN)"

text \<open>
  The payload \<^verbatim>\<open>d\<close> of \<^verbatim>\<open>renderDiagnosis(d)\<close>:
  \<^verbatim>\<open>const { input, goal_analysis: ga, benchmarks: bm, targets, overall } = d;\<close>
  \<^verbatim>\<open>input\<close>, \<^verbatim>\<open>ga\<close> and \<^verbatim>\<open>bm\<close> are dereferenced unguarded; \<^verbatim>\<open>targets\<close>,
  \<^verbatim>\<open>overall\<close> and the three samples of \<^verbatim>\<open>bm\<close> are guarded.
\<close>

record input =
  budget :: jsnum
  clicks :: jsnum
  leads :: jsnum
  goal_cpl :: jsnum

record goal_analysis =
  goal_scenario :: "string option"
  recommended_cpl :: jsnum
  realistic_range :: "target_range option"

record benchmarks =
  cpl :: "metric option"
  cpc :: "metric option"
  cr :: "metric option"

record targets =
  target_cr :: jsnum
  target_cpc :: jsnum

record overall =
  goal_status :: "string option"

record payload =
  input :: input
  goal_analysis :: goal_analysis
  benchmarks :: benchmarks
  targets :: "targets option"
  overall :: "overall option"

text \<open>
  What \<^verbatim>\<open>renderDiagnosis\<close> writes into the card: which card it is (its title), the
  banner passed as \<^verbatim>\<open>provisionalInfo\<close>, whether the aggressive-goal \<^verbatim>\<open>kicker\<close> is
  shown, and the needed conversion rate or cost per click that the message quotes
  (\<open>None\<close> is the dash). The fixed wording of each card is not modelled.
\<close>

datatype outcome =
    no_traffic | verify_tracking | budget_too_low
  | ready_to_scale | realign_goal_expectations
  | fix_conversion_rate | reduce_traffic_cost | fix_cpc_first | fix_cr_first
  | monitor_performance

datatype annotation = no_annotation | provisional_low_volume | budget_constrained real

record card =
  outcome :: outcome
  provisionalInfo :: annotation
  kicker :: bool
  needed :: "real option"

definition createDiagnosisCard :: "outcome \<Rightarrow> bool \<Rightarrow> real option \<Rightarrow> annotation \<Rightarrow> card" where
  "createDiagnosisCard title k n info =
     \<lparr>outcome = title, provisionalInfo = info, kicker = k, needed = n\<rparr>"

text \<open>
  \<^verbatim>\<open>
  const crSuspicious = (() => {
    const v = bm.cr?.value;
    if (v == null) return false;
    const tr = ensureTargetRange(bm.cr, '%', 'CR');
    return v > Math.max(tr.high * 1.8, 0.15);
  })();
  \<close>
\<close>

definition crSuspicious :: "arith \<Rightarrow> benchmarks \<Rightarrow> bool" where
  "crSuspicious ar bm =
     (case opt_field mvalue (cr bm) of
        Num v \<Rightarrow> (let tr = ensureTargetRange ar (cr bm) ''%'' ''CR''
                  in v > max (fmul ar (high tr) 1.8) 0.15)
      | _ \<Rightarrow> False)"

text \<open>
  \<^verbatim>\<open>
  let softBudgetBanner = (input.budget != null && input.budget < 1000)
    ? `... Budget constrained (${fmtMoney(input.budget)}) ...` : '';
  const provisional = ((input.leads || 0) < 15 || (input.clicks || 0) < 300);
  const provisionalTag = provisional ? '... Provisional - low data volume ...' : softBudgetBanner;
  \<close>
\<close>

definition softBudgetBanner :: "input \<Rightarrow> annotation" where
  "softBudgetBanner i =
     (case budget i of
        Num b \<Rightarrow> (if b < 1000 then budget_constrained b else no_annotation)
      | _ \<Rightarrow> no_annotation)"

definition provisional :: "input \<Rightarrow> bool" where
  "provisional i = (or_zero (leads i) < 15 \<or> or_zero (clicks i) < 300)"

definition provisionalTag :: "input \<Rightarrow> annotation" where
  "provisionalTag i = (if provisional i then provisional_low_volume else softBudgetBanner i)"

text \<open>
  \<^verbatim>\<open>
  const needCr  = targets?.target_cr  ?? ((bm.cpc?.value && input?.goal_cpl) ? (bm.cpc.value / input.goal_cpl) : null);
  const needCpc = targets?.target_cpc ?? ((input?.goal_cpl != null && bm.cr?.value != null) ? input.goal_cpl * bm.cr.value : null);
  \<close>
  In \<^verbatim>\<open>a && b\<close> a number counts as true when it is present and not 0. The messages
  print \<^verbatim>\<open>needCr != null ? fmtPct1(Math.max(0, needCr)) : dash\<close>.
\<close>

definition needCr :: "arith \<Rightarrow> payload \<Rightarrow> real option" where
  "needCr ar d =
     (case (case targets d of None \<Rightarrow> Undefined | Some t \<Rightarrow> target_cr t) of
        Num t \<Rightarrow> Some t
      | _ \<Rightarrow>
          (case (opt_field mvalue (cpc (benchmarks d)), goal_cpl (input d)) of
             (Num c, Num g) \<Rightarrow> (if c \<noteq> 0 \<and> g \<noteq> 0 then Some (fdiv ar c g) else None)
           | _ \<Rightarrow> None))"

definition needCpc :: "arith \<Rightarrow> payload \<Rightarrow> real option" where
  "needCpc ar d =
     (case (case targets d of None \<Rightarrow> Undefined | Some t \<Rightarrow> target_cpc t) of
        Num t \<Rightarrow> Some t
      | _ \<Rightarrow>
          (case (goal_cpl (input d), opt_field mvalue (cr (benchmarks d))) of
             (Num g, Num c) \<Rightarrow> Some (fmul ar g c)
           | _ \<Rightarrow> None))"

definition shown_need :: "real option \<Rightarrow> real option" where
  "shown_need n = (case n of None \<Rightarrow> None | Some v \<Rightarrow> Some (max 0 v))"

text \<open>
  \<^verbatim>\<open>
  const cplStatus = statusFromBench(bm.cpl, 'CPL', '$', 'lower-is-better');
  const cpcStatus = statusFromBench(bm.cpc, 'CPC', '$', 'lower-is-better');
  const crStatus  = statusFromBench(bm.cr,  'CR',  '%', 'higher-is-better');
  const goalScenario = ga.goal_scenario;
  const performanceIsGood = cplStatus !== 'WEAK' && cpcStatus !== 'WEAK' && crStatus !== 'WEAK';
  \<close>
\<close>

definition cplStatus :: "arith \<Rightarrow> benchmarks \<Rightarrow> bench_status" where
  "cplStatus ar bm = statusFromBench ar (cpl bm) ''CPL'' ''$'' ''lower-is-better''"

definition cpcStatus :: "arith \<Rightarrow> benchmarks \<Rightarrow> bench_status" where
  "cpcStatus ar bm = statusFromBench ar (cpc bm) ''CPC'' ''$'' ''lower-is-better''"

definition crStatus :: "arith \<Rightarrow> benchmarks \<Rightarrow> bench_status" where
  "crStatus ar bm = statusFromBench ar (cr bm) ''CR'' ''%'' ''higher-is-better''"

definition performanceIsGood :: "arith \<Rightarrow> benchmarks \<Rightarrow> bool" where
  "performanceIsGood ar bm =
     (cplStatus ar bm \<noteq> WEAK \<and> cpcStatus ar bm \<noteq> WEAK \<and> crStatus ar bm \<noteq> WEAK)"

text \<open>\<^verbatim>\<open>const status = overall?.goal_status;\<close>\<close>

definition status :: "payload \<Rightarrow> string option" where
  "status d = (case overall d of None \<Rightarrow> None | Some ov \<Rightarrow> goal_status ov)"

text \<open>
  The branch \<^verbatim>\<open>if (status === 'behind') { ... return; }\<close>:
  \<^verbatim>\<open>
  const kicker = (goalScenario === 'goal_too_aggressive') ? `...` : '';
  const trCPC = ensureTargetRange(bm.cpc, '$', 'CPC');
  const trCR  = ensureTargetRange(bm.cr,  '%', 'CR');
  const cpcExtreme = bm.cpc?.value > trCPC.high * 1.5;
  const crDeep     = bm.cr?.value  < trCR.low  * 0.5;
  if (crStatus === 'WEAK' && cpcStatus !== 'WEAK') {          // Fix Conversion Rate
  } else if (cpcStatus === 'WEAK' && crStatus !== 'WEAK') {   // Reduce Traffic Cost
  } else {
    if (cpcExtreme && !crDeep) {                              // Start with CPC, then CR
    } else {                                                  // Start with CR, then CPC
    }
  }
  \<close>
\<close>

definition behind_card :: "arith \<Rightarrow> payload \<Rightarrow> card" where
  "behind_card ar d =
     (let bm = benchmarks d;
          k = (goal_scenario (goal_analysis d) = Some ''goal_too_aggressive'');
          trCPC = ensureTargetRange ar (cpc bm) ''$'' ''CPC'';
          trCR = ensureTargetRange ar (cr bm) ''%'' ''CR'';
          cpcExtreme = js_gt (opt_field mvalue (cpc bm)) (fmul ar (high trCPC) 1.5);
          crDeep = js_lt (opt_field mvalue (cr bm)) (fmul ar (low trCR) 0.5);
          tag = provisionalTag (input d)
      in if crStatus ar bm = WEAK \<and> cpcStatus ar bm \<noteq> WEAK
           then createDiagnosisCard fix_conversion_rate k (shown_need (needCr ar d)) tag
         else if cpcStatus ar bm = WEAK \<and> crStatus ar bm \<noteq> WEAK
           then createDiagnosisCard reduce_traffic_cost k (shown_need (needCpc ar d)) tag
         else if cpcExtreme \<and> \<not> crDeep
           then createDiagnosisCard fix_cpc_first k None tag
         else createDiagnosisCard fix_cr_first k None tag)"

text \<open>
  \<^verbatim>\<open>
  function renderDiagnosis(d) {
    ...
    if ((input.clicks || 0) === 0) { /* No Traffic */ return; }
    const crSuspicious = ...;
    if ((input.leads === 0 && (input.clicks || 0) >= 100) || crSuspicious) { /* Verify Tracking */ return; }
    if (input.budget != null && input.budget < 500) { /* Budget Too Low */ return; }
    ...
    if (performanceIsGood) {
      if (status === 'achieved' || status === 'on_track') { /* Ready to Scale */ }
      else { /* Realign Goal Expectations */ }
      return;
    }
    if (status === 'behind') { ... return; }
    /* Monitor Performance */
  }
  \<close>
  The first three cards are created without the \<^verbatim>\<open>provisionalInfo\<close> argument, whose
  default is the empty string.
\<close>

definition renderDiagnosis :: "arith \<Rightarrow> payload \<Rightarrow> card" where
  "renderDiagnosis ar d =
     (let i = input d; bm = benchmarks d in
      if or_zero (clicks i) = 0
        then createDiagnosisCard no_traffic False None no_annotation
      else if (leads i = Num 0 \<and> or_zero (clicks i) \<ge> 100) \<or> crSuspicious ar bm
        then createDiagnosisCard verify_tracking False None no_annotation
      else if (case budget i of Num b \<Rightarrow> b < 500 | _ \<Rightarrow> False)
        then createDiagnosisCard budget_too_low False None no_annotation
      else if performanceIsGood ar bm
        then (if status d = Some ''achieved'' \<or> status d = Some ''on_track''
              then createDiagnosisCard ready_to_scale False None (provisionalTag i)
              else createDiagnosisCard realign_goal_expectations False None (provisionalTag i))
      else if status d = Some ''behind''
        then behind_card ar d
      else createDiagnosisCard monitor_performance False None (provisionalTag i))"

section \<open>The scenario builder\<close>

text \<open>
  The closure variables of \<^verbatim>\<open>renderScenarioBuilder\<close>: the mutable \<^verbatim>\<open>state\<close>
  \<^verbatim>\<open>{budget, cpc, cr}\<close> (fields \<open>s_budget\<close>, \<open>s_cpc\<close>, \<open>s_cr\<close> here, the plain
  names being those of the payload) and the \<^verbatim>\<open>bounds\<close>, fixed once computed.
\<close>

record state =
  s_budget :: real
  s_cpc :: real
  s_cr :: real

record bounds =
  budgetMin :: real
  budgetMax :: real
  cpcMin :: real
  cpcMax :: real
  crMin :: real
  crMax :: real

text \<open>\<^verbatim>\<open>a ?? b ?? c\<close> with a number last.\<close>

definition first_num :: "jsnum \<Rightarrow> jsnum \<Rightarrow> real \<Rightarrow> real" where
  "first_num a b c = (case a of Num v \<Rightarrow> v | _ \<Rightarrow> (case b of Num w \<Rightarrow> w | _ \<Rightarrow> c))"

text \<open>
  \<^verbatim>\<open>
  const hasCPC = bm.cpc && (bm.cpc.value != null || bm.cpc.median != null);
  const hasCR  = bm.cr  && (bm.cr.value  != null || bm.cr.median  != null);
  if (!hasCPC || !hasCR) { el.style.display = 'none'; return; }
  let state = {
    budget: d.input?.budget ?? 5000,
    cpc:    bm.cpc?.value ?? bm.cpc?.median ?? 3.00,
    cr:     bm.cr?.value  ?? bm.cr?.median  ?? 0.04
  };
  \<close>
\<close>

definition has_metric :: "metric option \<Rightarrow> bool" where
  "has_metric md = (case md of None \<Rightarrow> False | Some m \<Rightarrow> \<not> nullish (mvalue m) \<or> \<not> nullish (median m))"

definition initial_state :: "payload \<Rightarrow> state" where
  "initial_state d =
     \<lparr>s_budget = first_num (budget (input d)) Undefined 5000,
      s_cpc = first_num (opt_field mvalue (cpc (benchmarks d))) (opt_field median (cpc (benchmarks d))) 3,
      s_cr = first_num (opt_field mvalue (cr (benchmarks d))) (opt_field median (cr (benchmarks d))) 0.04\<rparr>"

text \<open>
  \<^verbatim>\<open>
  const bounds = {
    budgetMin: 0,
    budgetMax: Math.max((d.input?.budget ?? 5000) * 2, 10000),
    cpcMin: Math.max(0.2, (p25cpc ?? state.cpc) * 0.5),
    cpcMax: (p75cpc ?? state.cpc) * 1.8 || 20,
    crMin: Math.max(0.001, (p25cr ?? state.cr) * 0.3),
    crMax: Math.min(1.0, (p75cr ?? state.cr) * 2.0)
  };
  if (bounds.cpcMin >= bounds.cpcMax) { bounds.cpcMin = Math.max(0.2, state.cpc * 0.5); bounds.cpcMax = state.cpc * 2.0; }
  if (bounds.crMin  >= bounds.crMax)  { bounds.crMin  = Math.max(0.001, state.cr  * 0.5); bounds.crMax  = Math.min(1.0, state.cr  * 2.0); }
  \<close>
\<close>

definition initial_bounds :: "payload \<Rightarrow> bounds" where
  "initial_bounds d =
     (let st = initial_state d;
          bm = benchmarks d;
          cpcMin0 = max 0.2 (first_num (opt_field p25 (cpc bm)) Undefined (s_cpc st) * 0.5);
          cpcMax0 = (let x = first_num (opt_field p75 (cpc bm)) Undefined (s_cpc st) * 1.8
                     in if x = 0 then 20 else x);
          crMin0 = max 0.001 (first_num (opt_field p25 (cr bm)) Undefined (s_cr st) * 0.3);
          crMax0 = min 1.0 (first_num (opt_field p75 (cr bm)) Undefined (s_cr st) * 2.0);
          cpcFix = (cpcMin0 \<ge> cpcMax0);
          crFix = (crMin0 \<ge> crMax0)
      in \<lparr>budgetMin = 0,
          budgetMax = max (first_num (budget (input d)) Undefined 5000 * 2) 10000,
          cpcMin = (if cpcFix then max 0.2 (s_cpc st * 0.5) else cpcMin0),
          cpcMax = (if cpcFix then s_cpc st * 2.0 else cpcMax0),
          crMin = (if crFix then max 0.001 (s_cr st * 0.5) else crMin0),
          crMax = (if crFix then min 1.0 (s_cr st * 2.0) else crMax0)\<rparr>)"

text \<open>The builder is hidden, and nothing else happens, unless both samples are usable.\<close>

definition renderScenarioBuilder :: "payload \<Rightarrow> (state \<times> bounds) option" where
  "renderScenarioBuilder d =
     (if \<not> has_metric (cpc (benchmarks d)) \<or> \<not> has_metric (cr (benchmarks d)) then None
      else Some (initial_state d, initial_bounds d))"

text \<open>\<^verbatim>\<open>const clamp = (v, min, max) => Math.min(Math.max(v, min), max);\<close>\<close>

definition clamp :: "real \<Rightarrow> real \<Rightarrow> real \<Rightarrow> real" where
  "clamp v mn mx = min (max v mn) mx"

text \<open>
  \<^verbatim>\<open>
  const compute = () => {
    const clicks = (state.budget > 0 && state.cpc > 0) ? state.budget / state.cpc : 0;
    const leads  = (state.cr > 0 && state.cpc > 0) ? state.budget * state.cr / state.cpc : 0;
    const cpl    = (state.cr > 0) ? state.cpc / state.cr : null;
    return { clicks, leads, cpl };
  };
  \<close>
\<close>

record derived =
  c_clicks :: real
  c_leads :: real
  c_cpl :: "real option"

definition compute :: "state \<Rightarrow> derived" where
  "compute st =
     \<lparr>c_clicks = (if s_budget st > 0 \<and> s_cpc st > 0 then s_budget st / s_cpc st else 0),
      c_leads = (if s_cr st > 0 \<and> s_cpc st > 0 then s_budget st * s_cr st / s_cpc st else 0),
      c_cpl = (if s_cr st > 0 then Some (s_cpc st / s_cr st) else None)\<rparr>"

text \<open>
  \<^verbatim>\<open>
  const updateState = (key, rawValue, isFromNumeric) => {
    let num = parseFloat(rawValue);
    if (!isFinite(num)) return;
    if (key === 'cr' && isFromNumeric) num /= 100;
    state[key] = clamp(num, bounds[`${key}Min`], bounds[`${key}Max`]);
    render();
  };
  \<close>
  The two handlers call it with a key of their \<^verbatim>\<open>keyMap\<close> only. \<^verbatim>\<open>parseFloat\<close> is the
  browser's: its result is the argument \<open>num\<close>, \<open>None\<close> when it is not finite (NaN or an
  infinity).
\<close>

datatype key = key_budget | key_cpc | key_cr

definition updateState :: "bounds \<Rightarrow> key \<Rightarrow> real option \<Rightarrow> bool \<Rightarrow> state \<Rightarrow> state" where
  "updateState b k num isFromNumeric st =
     (case num of
        None \<Rightarrow> st
      | Some n \<Rightarrow>
          (let n' = (if k = key_cr \<and> isFromNumeric then n / 100 else n)
           in (case k of
                 key_budget \<Rightarrow> st\<lparr>s_budget := clamp n' (budgetMin b) (budgetMax b)\<rparr>
               | key_cpc \<Rightarrow> st\<lparr>s_cpc := clamp n' (cpcMin b) (cpcMax b)\<rparr>
               | key_cr \<Rightarrow> st\<lparr>s_cr := clamp n' (crMin b) (crMax b)\<rparr>)))"

text \<open>
  \<^verbatim>\<open>
  el.onclick = (e) => {
    if (e.target.id === 'sb_reset') { state = { ...current }; render(); }
    if (goal && e.target.id === 'sb_snap_cr' && goal > 0 && state.cpc > 0) { state.cr = clamp(state.cpc / goal, bounds.crMin, bounds.crMax); render(); }
    if (goal && e.target.id === 'sb_snap_cpc' && goal > 0 && state.cr > 0) { state.cpc = clamp(goal * state.cr, bounds.cpcMin, bounds.cpcMax); render(); }
  };
  \<close>
  with \<^verbatim>\<open>const goal = d.input?.goal_cpl ?? null\<close> and \<^verbatim>\<open>current\<close> the initial state.
\<close>

definition goal_positive :: "jsnum \<Rightarrow> real option" where
  "goal_positive goal = (case goal of Num g \<Rightarrow> (if g \<noteq> 0 \<and> g > 0 then Some g else None) | _ \<Rightarrow> None)"

definition onclick :: "bounds \<Rightarrow> state \<Rightarrow> jsnum \<Rightarrow> string \<Rightarrow> state \<Rightarrow> state" where
  "onclick b current goal target_id st =
     (let st1 = (if target_id = ''sb_reset'' then current else st);
          st2 = (case goal_positive goal of
                   Some g \<Rightarrow>
                     (if target_id = ''sb_snap_cr'' \<and> s_cpc st1 > 0
                      then st1\<lparr>s_cr := clamp (s_cpc st1 / g) (crMin b) (crMax b)\<rparr> else st1)
                 | None \<Rightarrow> st1);
          st3 = (case goal_positive goal of
                   Some g \<Rightarrow>
                     (if target_id = ''sb_snap_cpc'' \<and> s_cr st2 > 0
                      then st2\<lparr>s_cpc := clamp (g * s_cr st2) (cpcMin b) (cpcMax b)\<rparr> else st2)
                 | None \<Rightarrow> st2)
      in st3)"

section \<open>The churn waterfall\<close>

text \<open>
  \<^verbatim>\<open>renderChurnWaterfall(root, cfg)\<close> draws one bar per row. A bar is modelled by its
  row label, its class, its left edge and width (both in percent) and the signed points
  it prints (\<open>None\<close> where \<^verbatim>\<open>Number(d.pp)\<close> is NaN); the footer prints the final
  cumulative value. Tooltips and the lift badge are not modelled.
\<close>

record driver =
  label :: "string option"
  pp :: jsnum
  dtype :: "string option"

record config =
  total_pct :: jsnum
  baseline_pp :: jsnum
  drivers :: "driver list option"
  cap_to :: jsnum
  reconcile :: bool

record step =
  step_label :: string
  step_cls :: string
  step_left :: real
  step_width :: real
  step_pp :: "real option"

record waterfall =
  steps :: "step list"
  footer :: real

text \<open>\<^verbatim>\<open>const cap = (n) => Math.max(0, Math.min(cfg.cap_to ?? 100, Number(n) || 0));\<close>\<close>

definition cap :: "config \<Rightarrow> real \<Rightarrow> real" where
  "cap cfg n = max 0 (min (case cap_to cfg of Num c \<Rightarrow> c | _ \<Rightarrow> 100) n)"

text \<open>\<^verbatim>\<open>Number(x)\<close> of a number-or-missing value: \<^verbatim>\<open>null\<close> is 0, \<^verbatim>\<open>undefined\<close> is NaN.\<close>

definition Number_js :: "jsnum \<Rightarrow> real option" where
  "Number_js x = (case x of Num v \<Rightarrow> Some v | Null \<Rightarrow> Some 0 | Undefined \<Rightarrow> None)"

text \<open>\<^verbatim>\<open>Math.round\<close>: the nearest integer, a tie going up.\<close>

definition Math_round :: "real \<Rightarrow> real" where
  "Math_round x = of_int \<lfloor>x + 1 / 2\<rfloor>"

text \<open>
  \<^verbatim>\<open>
  const cls = (d.type === 'controllable') ? 'controllable'
             : (d.type === 'protective' || (Number(d.pp) < 0)) ? 'protective'
             : (d.type === 'residual') ? 'residual'
             : 'structural';
  \<close>
\<close>

definition driver_cls :: "driver \<Rightarrow> string" where
  "driver_cls d =
     (if dtype d = Some ''controllable'' then ''controllable''
      else if dtype d = Some ''protective'' \<or> (case Number_js (pp d) of Some v \<Rightarrow> v < 0 | None \<Rightarrow> False)
        then ''protective''
      else if dtype d = Some ''residual'' then ''residual''
      else ''structural'')"

text \<open>
  \<^verbatim>\<open>
  (cfg.drivers || []).forEach(d => {
    const wrap = row(d.label || 'Driver');
    const start = cumulative;
    const next = cap(cumulative + Number(d.pp || 0));
    const left = Math.min(start, next);
    const width = Math.abs(next - start);
    cumulative = next;
    ...
  });
  \<close>
  The loop threads \<^verbatim>\<open>cumulative\<close>; the model returns the bars it drew and the value
  it ends with. An empty label is falsy, as a missing one is.
\<close>

definition driver_step :: "config \<Rightarrow> real \<Rightarrow> driver \<Rightarrow> step \<times> real" where
  "driver_step cfg cumulative d =
     (let start = cumulative;
          next = cap cfg (cumulative + or_zero (pp d))
      in (\<lparr>step_label = (case label d of Some l \<Rightarrow> (if l = [] then ''Driver'' else l) | None \<Rightarrow> ''Driver''),
           step_cls = driver_cls d,
           step_left = min start next,
           step_width = \<bar>next - start\<bar>,
           step_pp = Number_js (pp d)\<rparr>, next))"

fun drivers_loop :: "config \<Rightarrow> real \<Rightarrow> driver list \<Rightarrow> step list \<times> real" where
  "drivers_loop cfg cumulative [] = ([], cumulative)"
| "drivers_loop cfg cumulative (d # ds) =
     (let (s, next) = driver_step cfg cumulative d;
          (ss, final) = drivers_loop cfg next ds
      in (s # ss, final))"

text \<open>
  \<^verbatim>\<open>
  const totalTarget = cap(cfg.total_pct ?? 0);
  ...
  let cumulative = cap(cfg.baseline_pp || 0);
  ...
  // Reconcile to header with residual if needed (+-1pp)
  const allowResidual = Boolean(cfg.reconcile);  // default false
  const diff = Math.round(totalTarget - cumulative);
  if (allowResidual && Math.abs(diff) >= 1) {
    const wrap = row('Other modeled factors');
    const start = cumulative;
    const next = cap(cumulative + diff);
    ...
    cumulative = next;
  }
  \<close>
\<close>

definition totalTarget :: "config \<Rightarrow> real" where
  "totalTarget cfg = cap cfg (case total_pct cfg of Num t \<Rightarrow> t | _ \<Rightarrow> 0)"

definition residual_step :: "config \<Rightarrow> real \<Rightarrow> step list \<times> real" where
  "residual_step cfg cumulative =
     (let diff = Math_round (totalTarget cfg - cumulative)
      in if reconcile cfg \<and> \<bar>diff\<bar> \<ge> 1
         then (let start = cumulative;
                   next = cap cfg (cumulative + diff)
               in ([\<lparr>step_label = ''Other modeled factors'',
                     step_cls = ''residual'',
                     step_left = min start next,
                     step_width = \<bar>next - start\<bar>,
                     step_pp = Some diff\<rparr>], next))
         else ([], cumulative))"

text \<open>\<^verbatim>\<open>if (!root || !cfg) return;\<close> With a mount point, only a missing \<^verbatim>\<open>cfg\<close> returns early.\<close>

definition renderChurnWaterfall :: "config option \<Rightarrow> waterfall option" where
  "renderChurnWaterfall c =
     (case c of
        None \<Rightarrow> None
      | Some cfg \<Rightarrow>
          (let base = cap cfg (or_zero (baseline_pp cfg));
               baseline = \<lparr>step_label = ''Baseline'', step_cls = ''baseline'',
                           step_left = 0, step_width = base, step_pp = Some base\<rparr>;
               (ds, cumulative) = drivers_loop cfg base (case drivers cfg of Some l \<Rightarrow> l | None \<Rightarrow> []);
               (rs, final) = residual_step cfg cumulative
           in Some \<lparr>steps = baseline # ds @ rs, footer = final\<rparr>))"

section \<open>Sample inputs\<close>

text \<open>
  A campaign with budget 5000, 1000 clicks, 40 leads and a goal of 80 per lead; observed
  cost per lead 125 against peers at 45 to 90 (median 60), cost per click 5, conversion
  rate 4 percent; the goal is behind.
\<close>

definition sample_cpl :: metric where
  "sample_cpl = \<lparr>mvalue = Num 125, median = Num 60, p25 = Num 45, p75 = Num 90, target_range = None\<rparr>"

definition sample_cpc :: metric where
  "sample_cpc = \<lparr>mvalue = Num 5, median = Undefined, p25 = Undefined, p75 = Undefined, target_range = None\<rparr>"

definition sample_cr :: metric where
  "sample_cr = \<lparr>mvalue = Num 0.04, median = Undefined, p25 = Undefined, p75 = Undefined, target_range = None\<rparr>"

definition sample_input :: input where
  "sample_input = \<lparr>budget = Num 5000, clicks = Num 1000, leads = Num 40, goal_cpl = Num 80\<rparr>"

definition sample_payload :: payload where
  "sample_payload =
     \<lparr>input = sample_input,
      goal_analysis = \<lparr>goal_scenario = Some ''goal_in_range'', recommended_cpl = Num 60,
                       realistic_range = None\<rparr>,
      benchmarks = \<lparr>cpl = Some sample_cpl, cpc = Some sample_cpc, cr = Some sample_cr\<rparr>,
      targets = None,
      overall = Some \<lparr>goal_status = Some ''behind''\<rparr>\<rparr>"

text \<open>The same campaign with another \<^verbatim>\<open>input\<close> object.\<close>

definition with_input :: "input \<Rightarrow> payload" where
  "with_input i = sample_payload\<lparr>input := i\<rparr>"

text \<open>The waterfall of the reconciliation scenario: baseline 20, drivers +15 and +10, total 40.\<close>

definition sample_config :: config where
  "sample_config =
     \<lparr>total_pct = Num 40, baseline_pp = Num 20,
      drivers = Some [\<lparr>label = Some ''High CPL'', pp = Num 15, dtype = Some ''controllable''\<rparr>,
                      \<lparr>label = Some ''Single Product'', pp = Num 10, dtype = Some ''structural''\<rparr>],
      cap_to = Num 100, reconcile = True\<rparr>"

text \<open>The sample campaign with a cost per click of 0.05 (and still no percentiles for it).\<close>

definition low_cpc_payload :: payload where
  "low_cpc_payload =
     sample_payload\<lparr>benchmarks := (benchmarks sample_payload)\<lparr>cpc := Some (sample_cpc\<lparr>mvalue := Num 0.05\<rparr>)\<rparr>\<rparr>"

section \<open>Verdict classification\<close>

text \<open>
  C1. \<^verbatim>\<open>deriveVerdict\<close> answers \<open>unknown\<close> whenever the value or either bound of the
  range is missing (also when the range object itself is); \<open>on_target\<close> whenever
  \<open>low \<le> value \<le> high\<close>; and outside the range, for \<^verbatim>\<open>lower-is-better\<close>,
  \<open>exceeds_target\<close> exactly when the value is below \<open>low\<close> and \<open>outside_target\<close>
  otherwise, for \<^verbatim>\<open>higher-is-better\<close> \<open>exceeds_target\<close> exactly when the value is
  above \<open>high\<close> and \<open>outside_target\<close> otherwise.
\<close>

theorem deriveVerdict_classifies:
  "(nullish v \<or> tro = None \<longrightarrow> deriveVerdict v tro dir = unknown)
   \<and> (nullish l \<or> nullish h \<longrightarrow>
        deriveVerdict v (Some \<lparr>tr_low = l, tr_high = h\<rparr>) dir = unknown)
   \<and> (lo \<le> x \<and> x \<le> hi \<longrightarrow>
        deriveVerdict (Num x) (Some \<lparr>tr_low = Num lo, tr_high = Num hi\<rparr>) dir = on_target)
   \<and> (\<not> (lo \<le> x \<and> x \<le> hi) \<longrightarrow>
        (deriveVerdict (Num x) (Some \<lparr>tr_low = Num lo, tr_high = Num hi\<rparr>) ''lower-is-better''
           = (if x < lo then exceeds_target else outside_target))
      \<and> (deriveVerdict (Num x) (Some \<lparr>tr_low = Num lo, tr_high = Num hi\<rparr>) ''higher-is-better''
           = (if x > hi then exceeds_target else outside_target)))"
  by (cases v; cases l; cases h; cases tro) (simp_all add: deriveVerdict_def nullish_def)

theorem deriveVerdict_classifies_witness:
  "deriveVerdict Null (Some \<lparr>tr_low = Num 1, tr_high = Num 10\<rparr>) ''lower-is-better'' = unknown
   \<and> deriveVerdict (Num 5) (Some \<lparr>tr_low = Num 1, tr_high = Undefined\<rparr>) ''lower-is-better'' = unknown
   \<and> deriveVerdict (Num 5) (Some \<lparr>tr_low = Num 1, tr_high = Num 10\<rparr>) ''lower-is-better'' = on_target
   \<and> deriveVerdict (Num 0) (Some \<lparr>tr_low = Num 1, tr_high = Num 10\<rparr>) ''lower-is-better'' = exceeds_target
   \<and> deriveVerdict (Num 11) (Some \<lparr>tr_low = Num 1, tr_high = Num 10\<rparr>) ''lower-is-better'' = outside_target
   \<and> deriveVerdict (Num 11) (Some \<lparr>tr_low = Num 1, tr_high = Num 10\<rparr>) ''higher-is-better'' = exceeds_target
   \<and> deriveVerdict (Num 0) (Some \<lparr>tr_low = Num 1, tr_high = Num 10\<rparr>) ''higher-is-better'' = outside_target"
  using deriveVerdict_classifies [of Null "Some \<lparr>tr_low = Num 1, tr_high = Num 10\<rparr>" "''lower-is-better''" Undefined Undefined 0 0 0]
        deriveVerdict_classifies [of "Num 5" None "''lower-is-better''" "Num 1" Undefined 1 5 10]
        deriveVerdict_classifies [of "Num 5" None "''lower-is-better''" "Num 1" "Num 1" 1 0 10]
        deriveVerdict_classifies [of "Num 5" None "''lower-is-better''" "Num 1" "Num 1" 1 11 10]
  by (simp add: nullish_def)

section \<open>Range resolution\<close>

text \<open>
  C6, as stated, fails: a target range that the sample carries with both bounds is
  returned unchanged, so a sample carrying \<open>low = 10\<close>, \<open>high = 5\<close> is answered with
  \<open>low > high\<close>.
\<close>

theorem ensureTargetRange_unordered_counterexample:
  "\<not> low (ensureTargetRange exact (Some (sample_cpl\<lparr>target_range := Some \<lparr>tr_low = Num 10, tr_high = Num 5\<rparr>\<rparr>)) ''$'' ''CPL'')
      \<le> high (ensureTargetRange exact (Some (sample_cpl\<lparr>target_range := Some \<lparr>tr_low = Num 10, tr_high = Num 5\<rparr>\<rparr>)) ''$'' ''CPL'')"
  by (simp add: ensureTargetRange_def supplied_range_def sample_cpl_def)

text \<open>
  C6, amended. \<^verbatim>\<open>ensureTargetRange\<close> always returns a range (it has no error path), and
  (with the exact operations) the range has \<open>low \<le> high\<close> provided that a target range carried by the sample with
  both bounds is itself ordered, and that the statistics present in the sample (value,
  median, p25, p75) are not negative.
\<close>

theorem ensureTargetRange_ordered:
  assumes supplied: "\<And>m tr l h. md = Some m \<Longrightarrow> target_range m = Some tr \<Longrightarrow>
                       tr_low tr = Num l \<Longrightarrow> tr_high tr = Num h \<Longrightarrow> l \<le> h"
    and nonneg: "\<And>v. opt_field median md = Num v \<or> opt_field mvalue md = Num v
                     \<or> opt_field p25 md = Num v \<or> opt_field p75 md = Num v \<Longrightarrow> 0 \<le> v"
  shows "low (ensureTargetRange exact md unit metricName) \<le> high (ensureTargetRange exact md unit metricName)"
proof (cases "supplied_range md")
  case (Some lh)
  then obtain l h where lh: "supplied_range md = Some (l, h)" by (cases lh) simp
  then have "l \<le> h"
    using supplied by (auto simp: supplied_range_def split: option.splits jsnum.splits)
  with lh show ?thesis by (simp add: ensureTargetRange_def)
next
  case None
  have m0: "0 \<le> center md unit metricName"
    using nonneg by (auto simp: center_def split: jsnum.splits)
  show ?thesis
  proof (cases "\<exists>a b. opt_field p25 md = Num a \<and> opt_field p75 md = Num b")
    case True
    then obtain a b where ab: "opt_field p25 md = Num a" "opt_field p75 md = Num b" by blast
    then have "0 \<le> a" using nonneg by blast
    with None ab show ?thesis by (simp add: ensureTargetRange_def)
  next
    case False
    then have "low (ensureTargetRange exact md unit metricName)
                 = max 0 (center md unit metricName - max 0.00001 (center md unit metricName * 0.15))
             \<and> high (ensureTargetRange exact md unit metricName)
                 = center md unit metricName + max 0.00001 (center md unit metricName * 0.15)"
      using None by (auto simp: ensureTargetRange_def exact_def Let_def split: jsnum.splits)
    with m0 show ?thesis by (auto simp: max_def)
  qed
qed

theorem ensureTargetRange_ordered_witness:
  "low (ensureTargetRange exact (Some sample_cpl) ''$'' ''CPL'') \<le> high (ensureTargetRange exact (Some sample_cpl) ''$'' ''CPL'')"
proof (rule ensureTargetRange_ordered)
  fix m tr and l h :: real
  assume "Some sample_cpl = Some m" "target_range m = Some tr"
  then show "l \<le> h" by (auto simp: sample_cpl_def)
next
  fix v
  assume "opt_field median (Some sample_cpl) = Num v \<or> opt_field mvalue (Some sample_cpl) = Num v
            \<or> opt_field p25 (Some sample_cpl) = Num v \<or> opt_field p75 (Some sample_cpl) = Num v"
  then show "0 \<le> v" by (auto simp: sample_cpl_def opt_field_def)
qed

section \<open>The decision tree: priority, tracking, missing fields\<close>

text \<open>Facts about the card shared by the proofs below.\<close>

lemma outcome_create [simp]: "outcome (createDiagnosisCard t k n a) = t"
  and info_create [simp]: "provisionalInfo (createDiagnosisCard t k n a) = a"
  by (simp_all add: createDiagnosisCard_def)

lemma outcome_behind_card:
  "outcome (behind_card ar d) \<in> {fix_conversion_rate, reduce_traffic_cost, fix_cpc_first, fix_cr_first}"
  by (simp add: behind_card_def Let_def)

lemma info_behind_card: "provisionalInfo (behind_card ar d) = provisionalTag (input d)"
  by (simp add: behind_card_def Let_def)

lemma outcome_behind_card_input: "outcome (behind_card ar (d\<lparr>input := i\<rparr>)) = outcome (behind_card ar d)"
  by (simp add: behind_card_def Let_def)

lemma nonterminal_iff:
  "outcome (renderDiagnosis ar d) \<notin> {no_traffic, verify_tracking, budget_too_low} \<longleftrightarrow>
     or_zero (clicks (input d)) \<noteq> 0
     \<and> \<not> ((leads (input d) = Num 0 \<and> or_zero (clicks (input d)) \<ge> 100) \<or> crSuspicious ar (benchmarks d))
     \<and> \<not> (case budget (input d) of Num b \<Rightarrow> b < 500 | _ \<Rightarrow> False)"
  using outcome_behind_card [of ar d]
  by (auto simp: renderDiagnosis_def Let_def)

lemma nonterminal_outcome:
  assumes "outcome (renderDiagnosis ar d) \<notin> {no_traffic, verify_tracking, budget_too_low}"
  shows "outcome (renderDiagnosis ar d) =
           (if performanceIsGood ar (benchmarks d)
            then (if status d = Some ''achieved'' \<or> status d = Some ''on_track''
                  then ready_to_scale else realign_goal_expectations)
            else if status d = Some ''behind'' then outcome (behind_card ar d)
            else monitor_performance)"
    and "provisionalInfo (renderDiagnosis ar d) = provisionalTag (input d)"
  using assms info_behind_card [of ar d] unfolding nonterminal_iff
  by (auto simp: renderDiagnosis_def Let_def)

lemma sample_not_suspicious: "\<not> crSuspicious exact (benchmarks (with_input i))"
  by (simp add: with_input_def sample_payload_def crSuspicious_def opt_field_def sample_cr_def
        ensureTargetRange_def supplied_range_def center_def exact_def)

text \<open>
  The tracking test follows the product as the arithmetic computes it: with both
  percentiles present it compares the rate with \<open>fmul ar (max p75 p25) 1.8\<close>. So an
  arithmetic that rounds the product of 0.1 and 1.8 up to 0.18000000000000002 (as doubles
  do) does not call that very rate suspicious, while the exact product 0.18 would.
\<close>

lemma crSuspicious_percentiles:
  "crSuspicious ar \<lparr>cpl = x, cpc = y,
       cr = Some \<lparr>mvalue = Num v, median = m, p25 = Num q25, p75 = Num q75, target_range = None\<rparr>\<rparr>
     \<longleftrightarrow> v > max (fmul ar (max q75 q25) 1.8) 0.15"
  by (simp add: crSuspicious_def opt_field_def ensureTargetRange_def supplied_range_def)

lemma sample_passes:
  assumes "clicks i = Num c" "c \<noteq> 0" "leads i = Num l" "l \<noteq> 0" "budget i = Num b" "500 \<le> b"
  shows "outcome (renderDiagnosis exact (with_input i)) \<notin> {no_traffic, verify_tracking, budget_too_low}"
proof -
  have "input (with_input i) = i" by (simp add: with_input_def)
  then show ?thesis
    unfolding nonterminal_iff using sample_not_suspicious [of i] assms
    by (simp add: or_zero_def)
qed

text \<open>
  C2. Whenever \<open>clicks\<close> is 0 the card is the no-traffic card, whatever the budget, the
  leads, the goal, the three samples, the goal analysis and the goal status are: the
  first rule wins over every later one.
\<close>

theorem no_clicks_no_traffic:
  "clicks (input d) = Num 0 \<Longrightarrow> outcome (renderDiagnosis ar d) = no_traffic"
  by (simp add: renderDiagnosis_def Let_def or_zero_def)

theorem no_clicks_no_traffic_witness:
  "outcome (renderDiagnosis exact (with_input (sample_input\<lparr>clicks := Num 0\<rparr>))) = no_traffic"
  using no_clicks_no_traffic [where ar = exact and d = "with_input (sample_input\<lparr>clicks := Num 0\<rparr>)"]
  by (simp add: with_input_def)

text \<open>
  C3. With a nonzero number of clicks, the card is the verify-tracking card whenever
  leads are 0 and clicks are at least 100, or the conversion rate exceeds
  \<^verbatim>\<open>Math.max(tr.high * 1.8, 0.15)\<close> for the range \<^verbatim>\<open>tr\<close> that \<^verbatim>\<open>ensureTargetRange\<close>
  resolves for it, the product and the range being those the arithmetic \<open>ar\<close> computes
  (any arithmetic: the rounded one of the browser, or the exact one). In particular 0
  leads with 150 clicks give verify-tracking (so neither no-traffic nor a card chosen
  from cost per lead).
\<close>

theorem tracking_rule:
  "(clicks (input d) = Num c \<and> c \<noteq> 0 \<and>
      ((leads (input d) = Num 0 \<and> c \<ge> 100)
       \<or> (opt_field mvalue (cr (benchmarks d)) = Num v
           \<and> v > max (fmul ar (high (ensureTargetRange ar (cr (benchmarks d)) ''%'' ''CR'')) 1.8) 0.15))
     \<longrightarrow> outcome (renderDiagnosis ar d) = verify_tracking)
   \<and> (leads (input d) = Num 0 \<and> clicks (input d) = Num 150
     \<longrightarrow> outcome (renderDiagnosis ar d) = verify_tracking)"
  by (auto simp: renderDiagnosis_def Let_def or_zero_def crSuspicious_def)

theorem tracking_rule_witness:
  "outcome (renderDiagnosis exact (with_input (sample_input\<lparr>clicks := Num 150, leads := Num 0\<rparr>))) = verify_tracking
   \<and> outcome (renderDiagnosis exact (sample_payload\<lparr>benchmarks := (benchmarks sample_payload)\<lparr>cr := Some (sample_cr\<lparr>mvalue := Num 0.5, median := Num 0.04\<rparr>)\<rparr>\<rparr>)) = verify_tracking"
  using tracking_rule [where ar = exact and c = 150 and v = 0
          and d = "with_input (sample_input\<lparr>clicks := Num 150, leads := Num 0\<rparr>)"]
        tracking_rule [where ar = exact and c = 1000 and v = "0.5"
          and d = "sample_payload\<lparr>benchmarks := (benchmarks sample_payload)\<lparr>cr := Some (sample_cr\<lparr>mvalue := Num 0.5, median := Num 0.04\<rparr>)\<rparr>\<rparr>"]
  by (simp add: with_input_def sample_input_def sample_payload_def sample_cr_def opt_field_def
        ensureTargetRange_def supplied_range_def center_def exact_def)

text \<open>
  C7, as stated, fails: the first rule tests \<^verbatim>\<open>(input.clicks || 0) === 0\<close>, so a
  \<^verbatim>\<open>null\<close> number of clicks is coerced to zero and gives the no-traffic card.
\<close>

theorem missing_clicks_counterexample:
  "outcome (renderDiagnosis exact (with_input (sample_input\<lparr>clicks := Null\<rparr>))) = no_traffic"
  by (simp add: renderDiagnosis_def Let_def or_zero_def with_input_def)

text \<open>
  C7, amended. A missing (\<^verbatim>\<open>null\<close> or \<^verbatim>\<open>undefined\<close>) number of clicks is coerced to
  zero by the first rule and gives the no-traffic card, exactly as 0 clicks do. A missing
  budget is treated as absent (the card is never budget-too-low), and a missing number of
  leads is not taken for zero leads (the card is verify-tracking only if the conversion
  rate is suspicious).
\<close>

theorem missing_fields:
  "(nullish (clicks (input d)) \<longrightarrow> outcome (renderDiagnosis ar d) = no_traffic)
   \<and> (nullish (budget (input d)) \<longrightarrow> outcome (renderDiagnosis ar d) \<noteq> budget_too_low)
   \<and> (nullish (leads (input d)) \<and> \<not> crSuspicious ar (benchmarks d)
        \<longrightarrow> outcome (renderDiagnosis ar d) \<noteq> verify_tracking)"
  using outcome_behind_card [of ar d]
  by (auto simp: renderDiagnosis_def Let_def or_zero_def nullish_def split: jsnum.splits)

theorem missing_fields_witness:
  "outcome (renderDiagnosis exact (with_input (sample_input\<lparr>clicks := Undefined\<rparr>))) = no_traffic
   \<and> outcome (renderDiagnosis exact (with_input (sample_input\<lparr>budget := Null\<rparr>))) \<noteq> budget_too_low
   \<and> outcome (renderDiagnosis exact (with_input (sample_input\<lparr>leads := Null\<rparr>))) \<noteq> verify_tracking"
proof -
  have ns: "\<not> crSuspicious exact (benchmarks (with_input (sample_input\<lparr>leads := Null\<rparr>)))"
    by (rule sample_not_suspicious)
  show ?thesis
    using missing_fields [where ar = exact and d = "with_input (sample_input\<lparr>clicks := Undefined\<rparr>)"]
          missing_fields [where ar = exact and d = "with_input (sample_input\<lparr>budget := Null\<rparr>)"]
          missing_fields [where ar = exact and d = "with_input (sample_input\<lparr>leads := Null\<rparr>)"] ns
    by (simp add: with_input_def nullish_def sample_input_def)
qed

section \<open>The decision tree: annotations\<close>

text \<open>
  C9, as stated, fails: with budget 600, 150 clicks and 0 leads (low volume and a budget
  within 500 to 1000) the card is verify-tracking, and the first three cards carry no
  banner at all.
\<close>

theorem annotation_counterexample:
  "provisional (sample_input\<lparr>budget := Num 600, clicks := Num 150, leads := Num 0\<rparr>)
   \<and> provisionalInfo (renderDiagnosis exact (with_input (sample_input\<lparr>budget := Num 600, clicks := Num 150, leads := Num 0\<rparr>)))
       = no_annotation"
  by (simp add: renderDiagnosis_def Let_def or_zero_def with_input_def sample_input_def provisional_def)

text \<open>The three cards that end the tree early are created without a banner.\<close>

lemma terminal_no_annotation:
  assumes "outcome (renderDiagnosis ar d) \<in> {no_traffic, verify_tracking, budget_too_low}"
  shows "provisionalInfo (renderDiagnosis ar d) = no_annotation"
proof -
  have "outcome (renderDiagnosis ar d) \<notin> {no_traffic, verify_tracking, budget_too_low}"
    if "provisionalInfo (renderDiagnosis ar d) \<noteq> no_annotation"
    unfolding nonterminal_iff using that
    by (auto simp: renderDiagnosis_def Let_def split: if_splits)
  with assms show ?thesis by blast
qed

text \<open>On an input that passes the three terminal rules.\<close>

lemma annotation_nonterminal:
  assumes "outcome (renderDiagnosis ar d) \<notin> {no_traffic, verify_tracking, budget_too_low}"
  shows "(or_zero (leads (input d)) < 15 \<or> or_zero (clicks (input d)) < 300
            \<longrightarrow> provisionalInfo (renderDiagnosis ar d) = provisional_low_volume)
       \<and> (\<not> (or_zero (leads (input d)) < 15 \<or> or_zero (clicks (input d)) < 300)
            \<and> budget (input d) = Num b \<and> b < 1000
            \<longrightarrow> 500 \<le> b \<and> provisionalInfo (renderDiagnosis ar d) = budget_constrained b)
       \<and> (outcome (renderDiagnosis ar (d\<lparr>input := i'\<rparr>)) \<notin> {no_traffic, verify_tracking, budget_too_low}
            \<longrightarrow> outcome (renderDiagnosis ar (d\<lparr>input := i'\<rparr>)) = outcome (renderDiagnosis ar d))
       \<and> outcome (renderDiagnosis ar (d\<lparr>input := (input d)\<lparr>budget := Null, clicks := Num 300, leads := Num 15\<rparr>\<rparr>))
            = outcome (renderDiagnosis ar d)
       \<and> provisionalInfo (renderDiagnosis ar (d\<lparr>input := (input d)\<lparr>budget := Null, clicks := Num 300, leads := Num 15\<rparr>\<rparr>))
            = no_annotation"
proof -
  let ?d0 = "d\<lparr>input := (input d)\<lparr>budget := Null, clicks := Num 300, leads := Num 15\<rparr>\<rparr>"
  have nt: "or_zero (clicks (input d)) \<noteq> 0" "\<not> crSuspicious ar (benchmarks d)"
     "\<not> (case budget (input d) of Num b \<Rightarrow> b < 500 | _ \<Rightarrow> False)"
    using assms unfolding nonterminal_iff by auto
  have info: "provisionalInfo (renderDiagnosis ar d) = provisionalTag (input d)"
    by (rule nonterminal_outcome(2) [OF assms])
  have same: "outcome (renderDiagnosis ar (d\<lparr>input := j\<rparr>)) = outcome (renderDiagnosis ar d)"
    if "outcome (renderDiagnosis ar (d\<lparr>input := j\<rparr>)) \<notin> {no_traffic, verify_tracking, budget_too_low}" for j
    using nonterminal_outcome(1) [OF that] nonterminal_outcome(1) [OF assms]
    by (simp add: outcome_behind_card_input status_def)
  have nt0: "outcome (renderDiagnosis ar ?d0) \<notin> {no_traffic, verify_tracking, budget_too_low}"
    unfolding nonterminal_iff using nt by (simp add: or_zero_def)
  have a: "or_zero (leads (input d)) < 15 \<or> or_zero (clicks (input d)) < 300
            \<longrightarrow> provisionalInfo (renderDiagnosis ar d) = provisional_low_volume"
    using info by (simp add: provisionalTag_def provisional_def)
  have b: "\<not> (or_zero (leads (input d)) < 15 \<or> or_zero (clicks (input d)) < 300)
            \<and> budget (input d) = Num b \<and> b < 1000
            \<longrightarrow> 500 \<le> b \<and> provisionalInfo (renderDiagnosis ar d) = budget_constrained b"
    using info nt(3) by (auto simp: provisionalTag_def provisional_def softBudgetBanner_def)
  have c: "provisionalInfo (renderDiagnosis ar ?d0) = no_annotation"
    using nonterminal_outcome(2) [OF nt0]
    by (simp add: provisionalTag_def provisional_def softBudgetBanner_def or_zero_def)
  show ?thesis using a b c same [of i'] same [OF nt0] by blast
qed


text \<open>
  C9, amended. The three terminal cards (no traffic, verify tracking, budget too low)
  carry no banner. On an input that none of those three rules ends: with leads below
  15 or clicks below 300 (a missing number counting as 0) the card carries the low-volume
  banner; otherwise with a budget present and below 1000 (then it is at least 500) it
  carries the budget-constrained banner. The banner never changes the card chosen: any
  other \<^verbatim>\<open>input\<close> object that those three rules let pass gives the same outcome on the
  same payload, and such an input without a banner exists (budget missing, 300 clicks,
  15 leads).
\<close>

theorem annotation_frame:
  "(outcome (renderDiagnosis ar d) \<in> {no_traffic, verify_tracking, budget_too_low}
      \<longrightarrow> provisionalInfo (renderDiagnosis ar d) = no_annotation)
   \<and> (outcome (renderDiagnosis ar d) \<notin> {no_traffic, verify_tracking, budget_too_low}
      \<longrightarrow> (or_zero (leads (input d)) < 15 \<or> or_zero (clicks (input d)) < 300
            \<longrightarrow> provisionalInfo (renderDiagnosis ar d) = provisional_low_volume)
       \<and> (\<not> (or_zero (leads (input d)) < 15 \<or> or_zero (clicks (input d)) < 300)
            \<and> budget (input d) = Num b \<and> b < 1000
            \<longrightarrow> 500 \<le> b \<and> provisionalInfo (renderDiagnosis ar d) = budget_constrained b)
       \<and> (outcome (renderDiagnosis ar (d\<lparr>input := i'\<rparr>)) \<notin> {no_traffic, verify_tracking, budget_too_low}
            \<longrightarrow> outcome (renderDiagnosis ar (d\<lparr>input := i'\<rparr>)) = outcome (renderDiagnosis ar d))
       \<and> outcome (renderDiagnosis ar (d\<lparr>input := (input d)\<lparr>budget := Null, clicks := Num 300, leads := Num 15\<rparr>\<rparr>))
            = outcome (renderDiagnosis ar d)
       \<and> provisionalInfo (renderDiagnosis ar (d\<lparr>input := (input d)\<lparr>budget := Null, clicks := Num 300, leads := Num 15\<rparr>\<rparr>))
            = no_annotation)"
  using terminal_no_annotation [of ar d] annotation_nonterminal [of ar d b i'] by blast

theorem annotation_frame_witness:
  "provisionalInfo (renderDiagnosis exact (with_input (sample_input\<lparr>budget := Num 600\<rparr>))) = budget_constrained 600
   \<and> outcome (renderDiagnosis exact (with_input sample_input))
       = outcome (renderDiagnosis exact (with_input (sample_input\<lparr>budget := Num 600\<rparr>)))
   \<and> provisionalInfo (renderDiagnosis exact (with_input (sample_input\<lparr>leads := Num 10\<rparr>))) = provisional_low_volume
   \<and> provisionalInfo (renderDiagnosis exact (with_input (sample_input\<lparr>clicks := Num 0\<rparr>))) = no_annotation
   \<and> provisionalInfo (renderDiagnosis exact (with_input (sample_input\<lparr>budget := Num 100\<rparr>))) = no_annotation"
proof -
  let ?dz = "with_input (sample_input\<lparr>clicks := Num 0\<rparr>)"
  let ?dl = "with_input (sample_input\<lparr>budget := Num 100\<rparr>)"
  have tz: "outcome (renderDiagnosis exact ?dz) \<in> {no_traffic, verify_tracking, budget_too_low}"
    by (simp add: renderDiagnosis_def Let_def with_input_def or_zero_def)
  have tl: "outcome (renderDiagnosis exact ?dl) \<in> {no_traffic, verify_tracking, budget_too_low}"
    using sample_not_suspicious [of "sample_input\<lparr>budget := Num 100\<rparr>"]
    by (simp add: renderDiagnosis_def Let_def with_input_def sample_input_def or_zero_def)
  have z: "provisionalInfo (renderDiagnosis exact ?dz) = no_annotation"
    by (rule mp [OF conjunct1 [OF annotation_frame [where ar = exact and d = ?dz and b = 0 and i' = sample_input]] tz])
  have l: "provisionalInfo (renderDiagnosis exact ?dl) = no_annotation"
    by (rule mp [OF conjunct1 [OF annotation_frame [where ar = exact and d = ?dl and b = 0 and i' = sample_input]] tl])
  let ?d600 = "with_input (sample_input\<lparr>budget := Num 600\<rparr>)"
  let ?d10 = "with_input (sample_input\<lparr>leads := Num 10\<rparr>)"
  have p1: "outcome (renderDiagnosis exact ?d600) \<notin> {no_traffic, verify_tracking, budget_too_low}"
    by (rule sample_passes [of _ 1000 40 600]) (simp_all add: sample_input_def)
  have p2: "outcome (renderDiagnosis exact ?d10) \<notin> {no_traffic, verify_tracking, budget_too_low}"
    by (rule sample_passes [of _ 1000 10 5000]) (simp_all add: sample_input_def)
  have p3: "outcome (renderDiagnosis exact (with_input sample_input)) \<notin> {no_traffic, verify_tracking, budget_too_low}"
    by (rule sample_passes [of _ 1000 40 5000]) (simp_all add: sample_input_def)
  have e: "?d600\<lparr>input := sample_input\<rparr> = with_input sample_input"
    by (simp add: with_input_def)
  have np: "\<not> (or_zero (leads (input ?d600)) < 15 \<or> or_zero (clicks (input ?d600)) < 300)
              \<and> budget (input ?d600) = Num 600 \<and> (600::real) < 1000"
    by (simp add: with_input_def sample_input_def or_zero_def)
  have lv: "or_zero (leads (input ?d10)) < 15 \<or> or_zero (clicks (input ?d10)) < 300"
    by (simp add: with_input_def sample_input_def or_zero_def)
  note f1 = mp [OF conjunct2 [OF annotation_frame [where ar = exact and d = ?d600 and b = 600 and i' = sample_input]] p1]
  have b: "500 \<le> (600::real) \<and> provisionalInfo (renderDiagnosis exact ?d600) = budget_constrained 600"
    by (rule mp [OF conjunct1 [OF conjunct2 [OF f1]] np])
  have p3': "outcome (renderDiagnosis exact (?d600\<lparr>input := sample_input\<rparr>)) \<notin> {no_traffic, verify_tracking, budget_too_low}"
    unfolding e by (rule p3)
  have c: "outcome (renderDiagnosis exact (?d600\<lparr>input := sample_input\<rparr>)) = outcome (renderDiagnosis exact ?d600)"
    by (rule mp [OF conjunct1 [OF conjunct2 [OF conjunct2 [OF f1]]] p3'])
  have c': "outcome (renderDiagnosis exact (with_input sample_input)) = outcome (renderDiagnosis exact ?d600)"
    using c unfolding e .
  have a: "provisionalInfo (renderDiagnosis exact ?d10) = provisional_low_volume"
    by (rule mp [OF conjunct1 [OF mp [OF conjunct2 [OF annotation_frame [where ar = exact and d = ?d10 and b = 0 and i' = sample_input]] p2]] lv])
  from a b c' z l show ?thesis by blast
qed

text \<open>
  C10. A sample whose value is missing has status \<open>UNKNOWN\<close>, which is not \<open>WEAK\<close>; so
  on an input that passes the first three rules and whose three values are all missing,
  performance counts as good and the card is ready-to-scale or realign-goal-expectations.
\<close>

theorem missing_values_good:
  "(nullish (opt_field mvalue m) \<longrightarrow> statusFromBench ar m metricName unit direction = UNKNOWN)
   \<and> (outcome (renderDiagnosis ar d) \<notin> {no_traffic, verify_tracking, budget_too_low}
        \<and> nullish (opt_field mvalue (cpl (benchmarks d)))
        \<and> nullish (opt_field mvalue (cpc (benchmarks d)))
        \<and> nullish (opt_field mvalue (cr (benchmarks d)))
      \<longrightarrow> performanceIsGood ar (benchmarks d)
          \<and> outcome (renderDiagnosis ar d) \<in> {ready_to_scale, realign_goal_expectations})"
proof -
  have u: "statusFromBench ar m n u dr = UNKNOWN" if "nullish (opt_field mvalue m)" for m n u dr
    using that by (simp add: statusFromBench_def nullish_def split: jsnum.splits)
  have g: "performanceIsGood ar (benchmarks d)"
    if "nullish (opt_field mvalue (cpl (benchmarks d)))" "nullish (opt_field mvalue (cpc (benchmarks d)))"
       "nullish (opt_field mvalue (cr (benchmarks d)))"
    using that by (simp add: performanceIsGood_def cplStatus_def cpcStatus_def crStatus_def u)
  show ?thesis
    using u [of m metricName unit direction] g nonterminal_outcome(1) [of ar d]
    by (auto split: if_splits)
qed

theorem missing_values_good_witness:
  "statusFromBench exact None ''CPL'' ''$'' ''lower-is-better'' = UNKNOWN
   \<and> performanceIsGood exact (benchmarks (sample_payload\<lparr>benchmarks := \<lparr>cpl = None, cpc = None, cr = None\<rparr>\<rparr>))
   \<and> outcome (renderDiagnosis exact (sample_payload\<lparr>benchmarks := \<lparr>cpl = None, cpc = None, cr = None\<rparr>\<rparr>))
        \<in> {ready_to_scale, realign_goal_expectations}"
proof -
  have p: "outcome (renderDiagnosis exact (sample_payload\<lparr>benchmarks := \<lparr>cpl = None, cpc = None, cr = None\<rparr>\<rparr>))
              \<notin> {no_traffic, verify_tracking, budget_too_low}"
    unfolding nonterminal_iff
    by (simp add: sample_payload_def sample_input_def or_zero_def crSuspicious_def opt_field_def)
  show ?thesis
    using missing_values_good [where ar = exact and m = None and metricName = "''CPL''" and unit = "''$''"
            and direction = "''lower-is-better''"
            and d = "sample_payload\<lparr>benchmarks := \<lparr>cpl = None, cpc = None, cr = None\<rparr>\<rparr>"] p
    by (simp add: opt_field_def nullish_def)
qed

section \<open>Waterfall reconciliation\<close>

text \<open>
  The cap is a projection onto an interval, so it moves no two points apart; rounding
  moves a number by at most one half.
\<close>

lemma cap_idem: "cap cfg (cap cfg x) = cap cfg x"
  by (simp add: cap_def)

lemma cap_nonexpansive: "\<bar>cap cfg x - cap cfg y\<bar> \<le> \<bar>x - y\<bar>"
  unfolding cap_def by linarith

lemma Math_round_close: "\<bar>Math_round x - x\<bar> \<le> 1 / 2"
  unfolding Math_round_def by linarith

lemma Math_round_small:
  assumes "\<bar>Math_round x\<bar> < 1"
  shows "Math_round x = 0"
proof -
  have "\<bar>real_of_int \<lfloor>x + 1 / 2\<rfloor>\<bar> < 1"
    using assms by (simp only: Math_round_def)
  then have "\<bar>\<lfloor>x + 1 / 2\<rfloor>\<bar> < 1" by linarith
  then have "\<lfloor>x + 1 / 2\<rfloor> = 0" by linarith
  then show ?thesis by (simp only: Math_round_def of_int_0)
qed

lemma residual_step_close:
  assumes "reconcile cfg"
  shows "\<bar>snd (residual_step cfg c) - totalTarget cfg\<bar> \<le> 1 / 2"
proof (cases "\<bar>Math_round (totalTarget cfg - c)\<bar> \<ge> 1")
  case True
  have tfix: "cap cfg (totalTarget cfg) = totalTarget cfg"
    by (simp only: totalTarget_def cap_idem)
  have "\<bar>cap cfg (c + Math_round (totalTarget cfg - c)) - cap cfg (totalTarget cfg)\<bar>
               \<le> \<bar>(c + Math_round (totalTarget cfg - c)) - totalTarget cfg\<bar>"
    by (rule cap_nonexpansive)
  moreover have "\<bar>(c + Math_round (totalTarget cfg - c)) - totalTarget cfg\<bar> \<le> 1 / 2"
    using Math_round_close [of "totalTarget cfg - c"] by linarith
  ultimately have "\<bar>cap cfg (c + Math_round (totalTarget cfg - c)) - totalTarget cfg\<bar> \<le> 1 / 2"
    unfolding tfix by linarith
  moreover have "snd (residual_step cfg c) = cap cfg (c + Math_round (totalTarget cfg - c))"
    using True assms by (simp add: residual_step_def Let_def)
  ultimately show ?thesis by (simp only:)
next
  case False
  then have "\<bar>Math_round (totalTarget cfg - c)\<bar> < 1" by linarith
  then have "Math_round (totalTarget cfg - c) = 0" by (rule Math_round_small)
  then have "\<bar>c - totalTarget cfg\<bar> \<le> 1 / 2"
    using Math_round_close [of "totalTarget cfg - c"] by linarith
  moreover have "snd (residual_step cfg c) = c"
    using False by (simp add: residual_step_def Let_def)
  ultimately show ?thesis by (simp only:)
qed

lemma footer_residual:
  assumes "renderChurnWaterfall (Some cfg) = Some w"
  shows "footer w = snd (residual_step cfg
           (snd (drivers_loop cfg (cap cfg (or_zero (baseline_pp cfg)))
              (case drivers cfg of Some l \<Rightarrow> l | None \<Rightarrow> []))))"
  using assms by (auto simp: renderChurnWaterfall_def Let_def split: prod.splits)


text \<open>
  C4, as stated, fails: the target itself is capped (\<^verbatim>\<open>cap(cfg.total_pct ?? 0)\<close>), so
  with \<open>total_pct = 150\<close> and the default cap of 100 the final cumulative value is 100,
  fifty points away from \<open>total_pct\<close>.
\<close>

theorem waterfall_overshoot_counterexample:
  "reconcile (sample_config\<lparr>total_pct := Num 150\<rparr>)
   \<and> map_option footer (renderChurnWaterfall (Some (sample_config\<lparr>total_pct := Num 150\<rparr>))) = Some 100
   \<and> \<not> \<bar>100 - 150\<bar> < (1 :: real)"
  by (simp add: renderChurnWaterfall_def sample_config_def Let_def cap_def or_zero_def driver_step_def
        driver_cls_def Number_js_def residual_step_def totalTarget_def Math_round_def)


text \<open>
  C4, amended. With \<open>reconcile\<close> set, the final cumulative value is less than 1 away from
  the capped target \<open>cap (total_pct ?? 0)\<close>, hence from \<open>total_pct\<close> itself whenever
  \<open>0 \<le> total_pct \<le> cap_to\<close> (\<open>cap_to\<close> defaulting to 100). In particular baseline 20
  with drivers +15 and +10 and total 40 ends at 40, which lies in 39 to 41, and a residual
  bar of -5 points is appended.
\<close>

theorem waterfall_reconciles:
  "(reconcile cfg \<and> renderChurnWaterfall (Some cfg) = Some w
      \<longrightarrow> \<bar>footer w - totalTarget cfg\<bar> < 1
        \<and> (total_pct cfg = Num t \<and> 0 \<le> t \<and> t \<le> (case cap_to cfg of Num c \<Rightarrow> c | _ \<Rightarrow> 100)
             \<longrightarrow> \<bar>footer w - t\<bar> < 1))
   \<and> renderChurnWaterfall (Some sample_config) =
       Some \<lparr>steps = [\<lparr>step_label = ''Baseline'', step_cls = ''baseline'', step_left = 0, step_width = 20, step_pp = Some 20\<rparr>,
                       \<lparr>step_label = ''High CPL'', step_cls = ''controllable'', step_left = 20, step_width = 15, step_pp = Some 15\<rparr>,
                       \<lparr>step_label = ''Single Product'', step_cls = ''structural'', step_left = 35, step_width = 10, step_pp = Some 10\<rparr>,
                       \<lparr>step_label = ''Other modeled factors'', step_cls = ''residual'', step_left = 40, step_width = 5, step_pp = Some (- 5)\<rparr>],
              footer = 40\<rparr>"
proof -
  have g: "\<bar>footer w - totalTarget cfg\<bar> < 1"
    if "reconcile cfg" "renderChurnWaterfall (Some cfg) = Some w"
  proof -
    let ?c = "snd (drivers_loop cfg (cap cfg (or_zero (baseline_pp cfg)))
                (case drivers cfg of Some l \<Rightarrow> l | None \<Rightarrow> []))"
    have "footer w = snd (residual_step cfg ?c)"
      by (rule footer_residual [OF that(2)])
    moreover have "\<bar>snd (residual_step cfg ?c) - totalTarget cfg\<bar> \<le> 1 / 2"
      by (rule residual_step_close [OF that(1)])
    ultimately show ?thesis by linarith
  qed
  have h: "totalTarget cfg = t"
    if "total_pct cfg = Num t" "0 \<le> t" "t \<le> (case cap_to cfg of Num c \<Rightarrow> c | _ \<Rightarrow> 100)"
    using that by (simp add: totalTarget_def cap_def)
  have s: "renderChurnWaterfall (Some sample_config) =
       Some \<lparr>steps = [\<lparr>step_label = ''Baseline'', step_cls = ''baseline'', step_left = 0, step_width = 20, step_pp = Some 20\<rparr>,
                       \<lparr>step_label = ''High CPL'', step_cls = ''controllable'', step_left = 20, step_width = 15, step_pp = Some 15\<rparr>,
                       \<lparr>step_label = ''Single Product'', step_cls = ''structural'', step_left = 35, step_width = 10, step_pp = Some 10\<rparr>,
                       \<lparr>step_label = ''Other modeled factors'', step_cls = ''residual'', step_left = 40, step_width = 5, step_pp = Some (- 5)\<rparr>],
              footer = 40\<rparr>"
    by (simp add: renderChurnWaterfall_def sample_config_def Let_def cap_def or_zero_def driver_step_def
          driver_cls_def Number_js_def residual_step_def totalTarget_def Math_round_def)
  show ?thesis using g h s by blast
qed

theorem waterfall_reconciles_witness:
  "map_option footer (renderChurnWaterfall (Some sample_config)) = Some 40
   \<and> \<bar>40 - totalTarget sample_config\<bar> < 1 \<and> \<bar>40 - 40\<bar> < (1 :: real)"
proof -
  note f = waterfall_reconciles [of sample_config _ 40]
  have r: "renderChurnWaterfall (Some sample_config) = Some \<lparr>steps = [\<lparr>step_label = ''Baseline'', step_cls = ''baseline'', step_left = 0, step_width = 20, step_pp = Some 20\<rparr>,
                       \<lparr>step_label = ''High CPL'', step_cls = ''controllable'', step_left = 20, step_width = 15, step_pp = Some 15\<rparr>,
                       \<lparr>step_label = ''Single Product'', step_cls = ''structural'', step_left = 35, step_width = 10, step_pp = Some 10\<rparr>,
                       \<lparr>step_label = ''Other modeled factors'', step_cls = ''residual'', step_left = 40, step_width = 5, step_pp = Some (- 5)\<rparr>],
              footer = 40\<rparr>"
    by (rule conjunct2 [OF f])
  have pre: "reconcile sample_config \<and> renderChurnWaterfall (Some sample_config) = Some \<lparr>steps = [\<lparr>step_label = ''Baseline'', step_cls = ''baseline'', step_left = 0, step_width = 20, step_pp = Some 20\<rparr>,
                       \<lparr>step_label = ''High CPL'', step_cls = ''controllable'', step_left = 20, step_width = 15, step_pp = Some 15\<rparr>,
                       \<lparr>step_label = ''Single Product'', step_cls = ''structural'', step_left = 35, step_width = 10, step_pp = Some 10\<rparr>,
                       \<lparr>step_label = ''Other modeled factors'', step_cls = ''residual'', step_left = 40, step_width = 5, step_pp = Some (- 5)\<rparr>],
              footer = 40\<rparr>"
    using r by (simp add: sample_config_def)
  note m = mp [OF conjunct1 [OF f] pre]
  have c: "\<bar>40 - totalTarget sample_config\<bar> < 1"
    using conjunct1 [OF m] by simp
  have i: "total_pct sample_config = Num 40 \<and> (0::real) \<le> 40
             \<and> 40 \<le> (case cap_to sample_config of Num c \<Rightarrow> c | _ \<Rightarrow> 100)"
    by (simp add: sample_config_def)
  have d: "\<bar>40 - 40\<bar> < (1 :: real)"
    using mp [OF conjunct2 [OF m] i] by simp
  show ?thesis using r c d by simp
qed

section \<open>The scenario builder: solving for the goal, updating a field\<close>

text \<open>The builder of the sample campaign.\<close>

lemma sample_state:
  "initial_state sample_payload = \<lparr>s_budget = 5000, s_cpc = 5, s_cr = 1 / 25\<rparr>"
  by (simp add: initial_state_def sample_payload_def sample_input_def sample_cpc_def sample_cr_def
        first_num_def opt_field_def)

lemma sample_bounds:
  "initial_bounds sample_payload =
     \<lparr>budgetMin = 0, budgetMax = 10000, cpcMin = 5 / 2, cpcMax = 9, crMin = 3 / 250, crMax = 2 / 25\<rparr>"
  by (simp add: initial_bounds_def Let_def sample_state)
     (simp add: sample_payload_def sample_input_def sample_cpc_def sample_cr_def
        first_num_def opt_field_def)

text \<open>
  C5. For any state, any bounds and any goal \<open>g > 0\<close> with a cost per click above 0,
  the button \<^verbatim>\<open>sb_snap_cr\<close> sets the conversion rate to \<open>clamp (cpc / g) crMin crMax\<close>.
  If the clamp left \<open>cpc / g\<close> as it is, the recomputed cost per lead is the goal (exactly,
  over the reals); if the clamp changed it, the recomputed cost per lead that the builder
  shows is not the goal (it is another number, or missing when the clamped rate is not
  positive).
\<close>

theorem snap_cr_roundtrip:
  "goal = Num g \<and> g > 0 \<and> s_cpc st > 0 \<longrightarrow>
     s_cr (onclick b current goal ''sb_snap_cr'' st) = clamp (s_cpc st / g) (crMin b) (crMax b)
     \<and> (clamp (s_cpc st / g) (crMin b) (crMax b) = s_cpc st / g
          \<longrightarrow> c_cpl (compute (onclick b current goal ''sb_snap_cr'' st)) = Some g)
     \<and> (clamp (s_cpc st / g) (crMin b) (crMax b) \<noteq> s_cpc st / g
          \<longrightarrow> c_cpl (compute (onclick b current goal ''sb_snap_cr'' st)) \<noteq> Some g)"
proof (intro impI, elim conjE)
  assume a: "goal = Num g" "g > 0" "s_cpc st > 0"
  let ?st' = "onclick b current goal ''sb_snap_cr'' st"
  let ?c = "clamp (s_cpc st / g) (crMin b) (crMax b)"
  have st': "?st' = st\<lparr>s_cr := ?c\<rparr>"
    using a by (simp add: onclick_def goal_positive_def Let_def)
  have cpl: "c_cpl (compute ?st') = (if ?c > 0 then Some (s_cpc st / ?c) else None)"
    unfolding st' by (simp add: compute_def)
  have 1: "c_cpl (compute ?st') = Some g" if "?c = s_cpc st / g"
    unfolding cpl that using a by simp
  have 2: "c_cpl (compute ?st') \<noteq> Some g" if ne: "?c \<noteq> s_cpc st / g"
  proof (cases "?c > 0")
    case True
    have "s_cpc st / ?c \<noteq> g"
    proof
      assume "s_cpc st / ?c = g"
      then have "s_cpc st = g * ?c" using True by (simp add: field_simps)
      then have "?c = s_cpc st / g" using a by (simp add: field_simps)
      with ne show False by simp
    qed
    then show ?thesis unfolding cpl using True by simp
  next
    case False
    then show ?thesis unfolding cpl by simp
  qed
  show "s_cr ?st' = ?c \<and> (?c = s_cpc st / g \<longrightarrow> c_cpl (compute ?st') = Some g)
        \<and> (?c \<noteq> s_cpc st / g \<longrightarrow> c_cpl (compute ?st') \<noteq> Some g)"
    using 1 2 st' by simp
qed

theorem snap_cr_roundtrip_witness:
  "c_cpl (compute (onclick (initial_bounds sample_payload) (initial_state sample_payload) (Num 80)
       ''sb_snap_cr'' (initial_state sample_payload))) = Some 80
   \<and> s_cr (onclick (initial_bounds sample_payload) (initial_state sample_payload) (Num 50)
       ''sb_snap_cr'' (initial_state sample_payload)) = 2 / 25
   \<and> c_cpl (compute (onclick (initial_bounds sample_payload) (initial_state sample_payload) (Num 50)
       ''sb_snap_cr'' (initial_state sample_payload))) \<noteq> Some 50"
proof -
  let ?b = "initial_bounds sample_payload" and ?s = "initial_state sample_payload"
  have h80: "Num 80 = Num 80 \<and> (80::real) > 0 \<and> s_cpc ?s > 0"
    by (simp add: sample_state)
  have h50: "Num 50 = Num 50 \<and> (50::real) > 0 \<and> s_cpc ?s > 0"
    by (simp add: sample_state)
  have c80: "clamp (s_cpc ?s / 80) (crMin ?b) (crMax ?b) = s_cpc ?s / 80"
    by (simp add: sample_state sample_bounds clamp_def)
  have c50: "clamp (s_cpc ?s / 50) (crMin ?b) (crMax ?b) = 2 / 25"
    by (simp add: sample_state sample_bounds clamp_def)
  have n50: "clamp (s_cpc ?s / 50) (crMin ?b) (crMax ?b) \<noteq> s_cpc ?s / 50"
    unfolding c50 by (simp add: sample_state)
  note f80 = mp [OF snap_cr_roundtrip [of "Num 80" 80 ?s ?b ?s] h80]
  note f50 = mp [OF snap_cr_roundtrip [of "Num 50" 50 ?s ?b ?s] h50]
  have a: "c_cpl (compute (onclick ?b ?s (Num 80) ''sb_snap_cr'' ?s)) = Some 80"
    by (rule mp [OF conjunct1 [OF conjunct2 [OF f80]] c80])
  have b: "s_cr (onclick ?b ?s (Num 50) ''sb_snap_cr'' ?s) = 2 / 25"
    using conjunct1 [OF f50] unfolding c50 .
  have c: "c_cpl (compute (onclick ?b ?s (Num 50) ''sb_snap_cr'' ?s)) \<noteq> Some 50"
    by (rule mp [OF conjunct2 [OF conjunct2 [OF f50]] n50])
  from a b c show ?thesis by blast
qed

text \<open>
  What \<^verbatim>\<open>updateState\<close> does for every state and bounds: nothing on an input that is not
  finite; otherwise the field is set to the clamp of the number, which never exceeds the
  upper bound and is at least the lower bound when the two bounds are ordered.
\<close>

lemma updateState_not_finite: "updateState b k None isFromNumeric st = st"
  by (simp add: updateState_def)

lemma clamp_within: "mn \<le> mx \<Longrightarrow> mn \<le> clamp v mn mx \<and> clamp v mn mx \<le> mx"
  by (simp add: clamp_def)

lemma clamp_le_max: "clamp v mn mx \<le> mx"
  by (simp add: clamp_def)

lemma updateState_finite:
  "updateState b k (Some n) isFromNumeric st =
     (case k of
        key_budget \<Rightarrow> st\<lparr>s_budget := clamp n (budgetMin b) (budgetMax b)\<rparr>
      | key_cpc \<Rightarrow> st\<lparr>s_cpc := clamp n (cpcMin b) (cpcMax b)\<rparr>
      | key_cr \<Rightarrow> st\<lparr>s_cr := clamp (if isFromNumeric then n / 100 else n) (crMin b) (crMax b)\<rparr>)"
  by (cases k) (simp_all add: updateState_def)

text \<open>
  C8 at the campaign whose cost per click is 0.05 and has no percentiles: the builder is
  shown, its fallback rule for \<^verbatim>\<open>cpcMin >= cpcMax\<close> leaves \<open>cpcMin = 0.2\<close> above
  \<open>cpcMax = 0.1\<close>, and typing 0.5 into the cost-per-click slider sets the field to 0.1,
  below its lower bound.
\<close>

theorem updateState_leaves_bounds:
  "renderScenarioBuilder low_cpc_payload = Some (initial_state low_cpc_payload, initial_bounds low_cpc_payload)
   \<and> cpcMin (initial_bounds low_cpc_payload) = 1 / 5
   \<and> cpcMax (initial_bounds low_cpc_payload) = 1 / 10
   \<and> s_cpc (updateState (initial_bounds low_cpc_payload) key_cpc (Some 0.5) False
              (initial_state low_cpc_payload)) = 1 / 10"
proof -
  have s: "initial_state low_cpc_payload = \<lparr>s_budget = 5000, s_cpc = 1 / 20, s_cr = 1 / 25\<rparr>"
    by (simp add: initial_state_def low_cpc_payload_def sample_payload_def sample_input_def
          sample_cpc_def sample_cr_def first_num_def opt_field_def)
  have mn: "cpcMin (initial_bounds low_cpc_payload) = 1 / 5"
    by (simp add: initial_bounds_def Let_def s)
       (simp add: low_cpc_payload_def sample_payload_def sample_cpc_def first_num_def opt_field_def)
  have mx: "cpcMax (initial_bounds low_cpc_payload) = 1 / 10"
    by (simp add: initial_bounds_def Let_def s)
       (simp add: low_cpc_payload_def sample_payload_def sample_cpc_def first_num_def opt_field_def)
  have r: "renderScenarioBuilder low_cpc_payload = Some (initial_state low_cpc_payload, initial_bounds low_cpc_payload)"
    by (simp add: renderScenarioBuilder_def has_metric_def nullish_def low_cpc_payload_def
          sample_payload_def sample_cpc_def sample_cr_def)
  have u: "s_cpc (updateState (initial_bounds low_cpc_payload) key_cpc (Some 0.5) False
              (initial_state low_cpc_payload)) = 1 / 10"
    by (simp add: updateState_def Let_def clamp_def mn mx)
  from r mn mx u show ?thesis by blast
qed

theorem updateState_leaves_bounds_witness:
  "s_cpc (updateState (initial_bounds low_cpc_payload) key_cpc (Some 0.5) False
            (initial_state low_cpc_payload))
     < cpcMin (initial_bounds low_cpc_payload)"
  using updateState_leaves_bounds by simp

end
